theory Spec2Isabelle
  imports Complex_Main
begin

section \<open>Gaussian mixture models of nipy.neurospin.clustering.gmm\<close>

text \<open>
  A shallow embedding of the class \<open>GMM\<close> and of \<open>best_fitting_GMM\<close>
  (nipy/neurospin/clustering/gmm.py, Python 2 with numpy).

  \<^item> Python integers are \<open>int\<close>; \<open>/\<close> between two Python 2 integers is floor
    division, \<open>div\<close>.
  \<^item> numpy floats are modelled by the reals: rounding is not modelled, and where numpy
    yields \<open>inf\<close> or \<open>nan\<close> (a zero denominator, the logarithm of a number that is
    not positive) the model has HOL's value (\<open>x / 0 = 0\<close>, \<open>ln 0 = 0\<close>).
    Theorems that depend on such a quotient carry the hypothesis that excludes it.
  \<^item> A two-dimensional array is the list of its rows, a three-dimensional one the list
    of its matrices. A nested list stands for a rectangular array; an array whose first
    axis is empty loses the lengths of its other axes (\<open>shape1 [] = 0\<close>), so functions
    that need a column count take it from the model (\<open>self.k\<close>, \<open>self.dim\<close>).
  \<^item> A dataset \<open>x\<close> is a two-dimensional array. Arithmetic between arrays is modelled
    for arrays of the shapes that the docstrings give (list operations stop at the
    shorter list where numpy raises or broadcasts); the theorems carry the shapes as
    hypotheses.
  \<^item> \<open>raise\<close> is a result \<open>Inl e\<close>; a method that mutates \<open>self\<close> returns the new
    object. The object left behind by a method that raised is not modelled. Printing
    (\<open>verbose\<close>) is left out.
  \<^item> The fields \<open>self.k\<close> and \<open>self.dim\<close> are \<open>gmm_k\<close> and \<open>gmm_dim\<close>.
  \<^item> \<open>numpy.linalg.eigvalsh\<close>, \<open>numpy.linalg.pinv\<close> and the k-means routine
    \<open>fc.kmeans\<close> are outside this file; they are parameters (the record \<open>externals\<close>).
\<close>

subsection \<open>Arrays and errors\<close>

type_synonym vec = "real list"
type_synonym mat = "real list list"

datatype ndarray = Arr2 mat | Arr3 "mat list"

datatype error =
    ValueError string
  | IndexError string
  | UnboundLocalError string
  | ZeroDivisionError string
  | AttributeError string
  | LinAlgError string

definition bind_err :: "error + 'a \<Rightarrow> ('a \<Rightarrow> error + 'b) \<Rightarrow> error + 'b" where
  "bind_err r f = (case r of Inl e \<Rightarrow> Inl e | Inr v \<Rightarrow> f v)"

definition shape0 :: "'a list \<Rightarrow> int" where
  "shape0 a = int (length a)"

definition shape1 :: "'a list list \<Rightarrow> int" where
  "shape1 a = (case a of [] \<Rightarrow> 0 | r # _ \<Rightarrow> int (length r))"

fun ndim :: "ndarray \<Rightarrow> nat" where
  "ndim (Arr2 _) = 2"
| "ndim (Arr3 _) = 3"

definition shape2 :: "'a list list list \<Rightarrow> int" where
  "shape2 a = (case a of [] \<Rightarrow> 0 | b # _ \<Rightarrow> shape1 b)"

definition nd_shape :: "ndarray \<Rightarrow> int list" where
  "nd_shape a = (case a of
       Arr2 m \<Rightarrow> [shape0 m, shape1 m]
     | Arr3 ms \<Rightarrow> [shape0 ms, shape1 ms, shape2 ms])"

definition np_zeros2 :: "int \<Rightarrow> int \<Rightarrow> error + mat" where
  "np_zeros2 r c =
     (if r < 0 \<or> c < 0 then Inl (ValueError ''negative dimensions are not allowed'')
      else Inr (replicate (nat r) (replicate (nat c) 0)))"

definition np_ones1 :: "int \<Rightarrow> error + vec" where
  "np_ones1 r =
     (if r < 0 then Inl (ValueError ''negative dimensions are not allowed'')
      else Inr (replicate (nat r) 1))"

definition np_ones2 :: "int \<Rightarrow> int \<Rightarrow> error + mat" where
  "np_ones2 r c =
     (if r < 0 \<or> c < 0 then Inl (ValueError ''negative dimensions are not allowed'')
      else Inr (replicate (nat r) (replicate (nat c) 1)))"

definition np_eye :: "int \<Rightarrow> error + mat" where
  "np_eye d =
     (if d < 0 then Inl (ValueError ''negative dimensions are not allowed'')
      else Inr (map (\<lambda>i. map (\<lambda>j. if i = j then 1 else 0) [0..<nat d]) [0..<nat d]))"

text \<open>
  \<open>np.repeat(a, r, 0)\<close> repeats every element of the first axis \<open>r\<close> times;
  \<open>a *= s\<close> for a number \<open>s\<close>.
\<close>

definition np_repeat0 :: "'a list \<Rightarrow> int \<Rightarrow> error + 'a list" where
  "np_repeat0 a r =
     (if r < 0 then Inl (ValueError ''count < 0'')
      else Inr (concat (map (replicate (nat r)) a)))"

definition nd_repeat0 :: "ndarray \<Rightarrow> int \<Rightarrow> error + ndarray" where
  "nd_repeat0 a r =
     (case a of
        Arr2 p \<Rightarrow> bind_err (np_repeat0 p r) (\<lambda>q. Inr (Arr2 q))
      | Arr3 p \<Rightarrow> bind_err (np_repeat0 p r) (\<lambda>q. Inr (Arr3 q)))"

definition nd_scale :: "ndarray \<Rightarrow> real \<Rightarrow> ndarray" where
  "nd_scale a s =
     (case a of
        Arr2 p \<Rightarrow> Arr2 (map (map (\<lambda>v. v * s)) p)
      | Arr3 p \<Rightarrow> Arr3 (map (map (map (\<lambda>v. v * s))) p))"

text \<open>\<open>np.sum(l, 1)\<close>, \<open>(l.T / sl).T\<close>, and \<open>np.sum(l, 0)\<close> for an array of \<open>c\<close> columns.\<close>

definition row_sums :: "mat \<Rightarrow> vec" where
  "row_sums l = map sum_list l"

definition div_rows :: "mat \<Rightarrow> vec \<Rightarrow> mat" where
  "div_rows l sl = map2 (\<lambda>row s. map (\<lambda>v. v / s) row) l sl"

definition col_sums :: "nat \<Rightarrow> mat \<Rightarrow> vec" where
  "col_sums c l = map (\<lambda>j. sum_list (map (\<lambda>row. row ! j) l)) [0..<c]"

text \<open>\<open>np.dot(like.T, x)\<close> for \<open>like\<close> of \<open>c\<close> columns and \<open>x\<close> of \<open>d\<close> columns.\<close>

definition dot_T :: "nat \<Rightarrow> nat \<Rightarrow> mat \<Rightarrow> mat \<Rightarrow> mat" where
  "dot_T c d like x =
     map (\<lambda>j. map (\<lambda>a. sum_list (map2 (\<lambda>lr xr. lr ! j * xr ! a) like x)) [0..<d]) [0..<c]"

definition tiny :: real where
  "tiny = 1 / 10 ^ 15"

subsection \<open>The class GMM\<close>

text \<open>
  The prior attributes do not exist until \<open>guess_regularizing\<close> has set them: each is
  an option, \<open>None\<close> for the missing attribute.
\<close>

record gmm =
  gmm_k :: int
  gmm_dim :: int
  prec_type :: string
  means :: mat
  precisions :: ndarray
  weights :: vec
  prior_means :: "mat option"
  prior_weights :: "vec option"
  prior_scale :: "ndarray option"
  prior_dof :: "int option"
  prior_shrinkage :: "real option"

record externals =
  eigvalsh :: "mat \<Rightarrow> vec"
  pinv :: "mat \<Rightarrow> mat"
  kmeans :: "nat \<Rightarrow> mat \<Rightarrow> int \<Rightarrow> nat list"

text \<open>
  \<open>__init__\<close>: a parameter that is \<open>None\<close> gets its default; nothing is validated.
  The default precisions are \<open>k\<close> identity matrices when \<open>prec_type\<close> is \<open>'full'\<close> and
  a \<open>k\<close>-by-\<open>dim\<close> array of ones for every other string.
\<close>

definition GMM_init ::
  "int \<Rightarrow> int \<Rightarrow> string \<Rightarrow> mat option \<Rightarrow> ndarray option \<Rightarrow> vec option \<Rightarrow> error + gmm" where
  "GMM_init k d ptype means0 precisions0 weights0 =
     bind_err (case means0 of None \<Rightarrow> np_zeros2 k d | Some mu \<Rightarrow> Inr mu) (\<lambda>mu.
     bind_err (case precisions0 of
                 None \<Rightarrow>
                   (if ptype = ''full''
                    then bind_err (np_eye d) (\<lambda>prec. nd_repeat0 (Arr3 [prec]) k)
                    else bind_err (np_ones2 k d) (\<lambda>ps. Inr (Arr2 ps)))
               | Some ps \<Rightarrow> Inr ps) (\<lambda>ps.
     bind_err (case weights0 of
                 None \<Rightarrow> bind_err (np_ones1 k) (\<lambda>on. Inr (map (\<lambda>v. v * 1 / real_of_int k) on))
               | Some w \<Rightarrow> Inr w) (\<lambda>w.
     Inr \<lparr> gmm_k = k, gmm_dim = d, prec_type = ptype, means = mu, precisions = ps,
           weights = w, prior_means = None, prior_weights = None, prior_scale = None,
           prior_dof = None, prior_shrinkage = None \<rparr>)))"

text \<open>
  \<open>check\<close>: the tests in the order of the source. \<open>self.precisions.shape[2]\<close> does not
  exist for a two-dimensional array (IndexError). The messages are those of the source,
  without the blanks that the continuation lines put in front of those about the
  precisions.
\<close>

definition check :: "gmm \<Rightarrow> error + unit" where
  "check m =
     (if shape0 (means m) \<noteq> gmm_k m
        then Inl (ValueError '' self.means does not have correct dimensions'')
      else if shape1 (means m) \<noteq> gmm_dim m
        then Inl (ValueError '' self.means does not have correct dimensions'')
      else if int (length (weights m)) \<noteq> gmm_k m
        then Inl (ValueError '' self.weights does not have correct dimensions'')
      else if gmm_dim m \<noteq> nd_shape (precisions m) ! 1
        then Inl (ValueError ''self.precisions does not have correct dimensions'')
      else if prec_type m = ''full'' \<and> length (nd_shape (precisions m)) < 3
        then Inl (IndexError ''tuple index out of range'')
      else if prec_type m = ''full'' \<and> gmm_dim m \<noteq> nd_shape (precisions m) ! 2
        then Inl (ValueError ''self.precisions does not have correct dimensions'')
      else if prec_type m = ''diag'' \<and> nd_shape (precisions m) \<noteq> [shape0 (means m), shape1 (means m)]
        then Inl (ValueError ''self.precisions does not have correct dimensions'')
      else if nd_shape (precisions m) ! 0 \<noteq> gmm_k m
        then Inl (ValueError ''self.precisions does not have correct dimensions'')
      else if prec_type m \<noteq> ''full'' \<and> prec_type m \<noteq> ''diag''
        then Inl (ValueError ''unknown precisions type'')
      else Inr ())"

text \<open>\<open>plugin\<close>: sets the three parameters, then checks.\<close>

definition plugin :: "gmm \<Rightarrow> mat \<Rightarrow> ndarray \<Rightarrow> vec \<Rightarrow> error + gmm" where
  "plugin m mu ps w =
     (let m' = m\<lparr>means := mu, precisions := ps, weights := w\<rparr>
      in bind_err (check m') (\<lambda>_. Inr m'))"

text \<open>
  \<open>if np.size(x) == x.shape[0]: x = np.reshape(x, (np.size(x), 1))\<close> for a
  two-dimensional \<open>x\<close>: an array with as many elements as rows becomes one column.
  \<open>reshape_rows\<close> is \<open>x\<close> afterwards and \<open>reshape_cols\<close> is its \<open>shape[1]\<close>.
\<close>

definition reshape_rows :: "mat \<Rightarrow> mat" where
  "reshape_rows x = (if sum_list (map length x) = length x then map (\<lambda>v. [v]) (concat x) else x)"

definition reshape_cols :: "mat \<Rightarrow> int" where
  "reshape_cols x = (if sum_list (map length x) = length x then 1 else shape1 x)"

text \<open>\<open>check_x\<close>: the reshape, then the column count is compared with \<open>self.dim\<close>.\<close>

definition check_x :: "gmm \<Rightarrow> mat \<Rightarrow> error + mat" where
  "check_x m x =
     (let x' = reshape_rows x
      in if reshape_cols x \<noteq> gmm_dim m then Inl (ValueError ''incorrect size for x'')
         else Inr x')"

text \<open>\<open>pop\<close>: the column sums of the row-normalised \<open>l\<close> (of \<open>self.k\<close> columns).\<close>

definition pop :: "gmm \<Rightarrow> mat \<Rightarrow> vec" where
  "pop m l =
     (let sl = map (max tiny) (row_sums l);
          nl = div_rows l sl
      in col_sums (nat (gmm_k m)) nl)"

subsection \<open>Likelihood and evidence\<close>

definition vsub :: "vec \<Rightarrow> vec \<Rightarrow> vec" where
  "vsub a b = map2 (\<lambda>u v. u - v) a b"

text \<open>\<open>np.dot(v, b)\<close> for a row \<open>v\<close> and a matrix \<open>b\<close> of \<open>d\<close> columns.\<close>

definition vec_mat :: "nat \<Rightarrow> vec \<Rightarrow> mat \<Rightarrow> vec" where
  "vec_mat d v b = map (\<lambda>c. sum_list (map2 (\<lambda>va brow. va * brow ! c) v b)) [0..<d]"

text \<open>
  One column of \<open>unweighted_likelihood\<close>: the density of component \<open>j\<close> at every row
  of \<open>x\<close>. The branch is chosen by \<open>prec_type\<close>; a precision array whose rank does not
  fit the branch makes numpy raise (\<open>eigvalsh\<close> of a vector, an assignment of the wrong
  shape) or, when a dimension is 1, broadcast: those states are outside the model and
  are given as errors.
\<close>

definition like_column :: "externals \<Rightarrow> gmm \<Rightarrow> mat \<Rightarrow> nat \<Rightarrow> error + vec" where
  "like_column ext m x j =
     (let w0 = - ln (2 * pi) * real_of_int (gmm_dim m);
          mj = means m ! j
      in if prec_type m = ''full''
         then (case precisions m of
                 Arr3 ps \<Rightarrow>
                   (let b = ps ! j;
                        w = w0 + sum_list (map ln (eigvalsh ext b))
                    in Inr (map (\<lambda>xi. let dx = vsub mj xi;
                                           q = sum_list (map2 (\<lambda>u v. u * v) (vec_mat (nat (gmm_dim m)) dx b) dx)
                                       in exp ((w - q) / 2)) x))
               | Arr2 _ \<Rightarrow> Inl (LinAlgError ''Array must be two-dimensional''))
         else (case precisions m of
                 Arr2 ps \<Rightarrow>
                   (let b = ps ! j;
                        w = w0 + sum_list (map ln b)
                    in Inr (map (\<lambda>xi. let dx = vsub mj xi;
                                           q = sum_list (map2 (\<lambda>u v. u\<^sup>2 * v) dx b)
                                       in exp ((w - q) / 2)) x))
               | Arr3 _ \<Rightarrow> Inl (ValueError ''shape mismatch'')))"

fun like_columns :: "externals \<Rightarrow> gmm \<Rightarrow> mat \<Rightarrow> nat list \<Rightarrow> error + mat" where
  "like_columns ext m x [] = Inr []"
| "like_columns ext m x (j # js) =
     bind_err (like_column ext m x j) (\<lambda>c.
     bind_err (like_columns ext m x js) (\<lambda>cs. Inr (c # cs)))"

text \<open>The array \<open>like\<close> of shape (n, k) whose columns are \<open>cols\<close>.\<close>

definition from_columns :: "nat \<Rightarrow> mat \<Rightarrow> mat" where
  "from_columns n cols = map (\<lambda>i. map (\<lambda>c. c ! i) cols) [0..<n]"

definition unweighted_likelihood :: "externals \<Rightarrow> gmm \<Rightarrow> mat \<Rightarrow> error + mat" where
  "unweighted_likelihood ext m x =
     bind_err (like_columns ext m x [0..<nat (gmm_k m)]) (\<lambda>cols.
     Inr (from_columns (length x) cols))"

definition likelihood :: "externals \<Rightarrow> gmm \<Rightarrow> mat \<Rightarrow> error + mat" where
  "likelihood ext m x =
     bind_err (unweighted_likelihood ext m x) (\<lambda>like.
     Inr (map (\<lambda>row. map2 (\<lambda>v w. v * w) row (weights m)) like))"

definition Estep :: "externals \<Rightarrow> gmm \<Rightarrow> mat \<Rightarrow> error + mat" where
  "Estep ext m x = likelihood ext m x"

text \<open>
  \<open>bic\<close>: \<open>eta\<close> is computed on Python integers, \<open>(self.dim*self.dim+1)/2\<close> with
  floor division.
\<close>

definition bic :: "gmm \<Rightarrow> mat \<Rightarrow> real" where
  "bic m like =
     (let sl = map (\<lambda>s. max s tiny) (row_sums like);
          bicc = sum_list (map ln sl);
          n = length like;
          eta = (if prec_type m = ''full''
                 then gmm_k m * (1 + gmm_dim m + (gmm_dim m * gmm_dim m + 1) div 2) - 1
                 else gmm_k m * (1 + 2 * gmm_dim m) - 1)
      in bicc - ln (real n) * real_of_int eta)"


subsection \<open>The regularizing prior\<close>

text \<open>\<open>x.mean(0)\<close> for \<open>x\<close> of \<open>d\<close> columns, \<open>np.diag\<close> of a matrix and of a vector.\<close>

definition col_means :: "nat \<Rightarrow> mat \<Rightarrow> vec" where
  "col_means d x = map (\<lambda>a. sum_list (map (\<lambda>row. row ! a) x) / real (length x)) [0..<d]"

definition diag_of :: "nat \<Rightarrow> mat \<Rightarrow> vec" where
  "diag_of d a = map (\<lambda>i. a ! i ! i) [0..<d]"

definition diag_mat :: "vec \<Rightarrow> mat" where
  "diag_mat v = map (\<lambda>i. map (\<lambda>j. if i = j then v ! i else 0) [0..<length v]) [0..<length v]"

text \<open>
  \<open>guess_regularizing\<close>. The reshape of \<open>x.mean(0)\<close> to (1, dim) raises when \<open>x\<close> has
  another number of columns (an \<open>x\<close> without rows is read as the array of shape
  (0, dim)); \<open>2.0/self.dim\<close> divides Python numbers and raises for \<open>dim = 0\<close>;
  \<open>np.repeat\<close> and \<open>np.ones\<close> raise for a negative \<open>k\<close>. The attributes are then
  set, and \<open>check\<close> runs when \<open>bcheck\<close> is true. (\<open>dim = -1\<close>, which reshape reads as
  "infer this length", is given as the reshape error.)
\<close>

definition guess_regularizing :: "gmm \<Rightarrow> mat \<Rightarrow> bool \<Rightarrow> error + gmm" where
  "guess_regularizing m x bcheck =
     (let small = 1 / 100;
          d = nat (gmm_dim m)
      in if x \<noteq> [] \<and> shape1 x \<noteq> gmm_dim m \<or> gmm_dim m < 0
           then Inl (ValueError ''total size of new array must be unchanged'')
         else
           (let mx = [col_means d x];
                dx = map (\<lambda>row. vsub row (hd mx)) x;
                vx = map (map (\<lambda>v. v / real (length x))) (dot_T d d dx dx);
                px = (if prec_type m = ''full''
                      then Arr3 [diag_mat (map (\<lambda>v. 1 / v) (diag_of d vx))]
                      else Arr2 [map (\<lambda>v. 1 / v) (diag_of d vx)])
            in if gmm_dim m = 0 then Inl (ZeroDivisionError ''float division'')
               else
                 (let px' = nd_scale px
                              (exp (2 / real_of_int (gmm_dim m) * ln (real_of_int (gmm_k m))))
                  in bind_err (np_repeat0 mx (gmm_k m)) (\<lambda>pm.
                     bind_err (np_ones1 (gmm_k m)) (\<lambda>on.
                     bind_err (nd_repeat0 px' (gmm_k m)) (\<lambda>psc.
                     (let m' = m\<lparr> prior_means := Some pm,
                                   prior_weights := Some (map (\<lambda>v. v / real_of_int (gmm_k m)) on),
                                   prior_scale := Some psc,
                                   prior_dof := Some (gmm_dim m + 2),
                                   prior_shrinkage := Some small,
                                   weights := map (\<lambda>v. v * 1 / real_of_int (gmm_k m)) on \<rparr>
                      in if bcheck then bind_err (check m') (\<lambda>_. Inr m') else Inr m')))))))"

subsection \<open>The M step\<close>

definition outer :: "vec \<Rightarrow> vec \<Rightarrow> mat" where
  "outer u v = map (\<lambda>a. map (\<lambda>b. a * b) v) u"

definition mat_add :: "mat \<Rightarrow> mat \<Rightarrow> mat" where
  "mat_add a b = map2 (\<lambda>r s. map2 (\<lambda>u v. u + v) r s) a b"

text \<open>
  The covariance of component \<open>j\<close> before the final inversion, for the two
  parameterizations. \<open>like\<close> is the row-normalised likelihood, \<open>psj\<close> is
  \<open>self.prior_scale[j]\<close>, \<open>pmj\<close> is \<open>self.prior_means[j]\<close>, \<open>ej\<close> is \<open>empmeans[j]\<close>.
  In the diagonal branch \<open>addcov[j]\<close> is \<open>np.sum(dx[j]**2, 0)\<close> for \<open>dx[j]\<close> of shape
  (dim, 1): one number, the sum over the dimensions, added to every entry.
\<close>

definition full_cov ::
  "externals \<Rightarrow> nat \<Rightarrow> mat \<Rightarrow> mat \<Rightarrow> nat \<Rightarrow> vec \<Rightarrow> vec \<Rightarrow> mat \<Rightarrow> real \<Rightarrow> real \<Rightarrow> mat" where
  "full_cov ext d x like j ej pmj psj apmsj dofj =
     (let dx = map (\<lambda>row. vsub row ej) x;
          empcov = map (\<lambda>a. map (\<lambda>b. sum_list (map2 (\<lambda>dxi li. dxi ! a * (li ! j * dxi ! b)) dx like))
                                [0..<d]) [0..<d];
          cov0 = mat_add (pinv ext psj) empcov;
          dxm = vsub ej pmj;
          addcov = outer dxm dxm;
          cov1 = mat_add cov0 (map (map (\<lambda>v. v * apmsj)) addcov)
      in map (map (\<lambda>v. v / dofj)) cov1)"

definition diag_cov ::
  "nat \<Rightarrow> mat \<Rightarrow> mat \<Rightarrow> nat \<Rightarrow> vec \<Rightarrow> vec \<Rightarrow> vec \<Rightarrow> real \<Rightarrow> real \<Rightarrow> vec" where
  "diag_cov d x like j ej pmj psj apmsj dofj =
     (let dx = map (\<lambda>row. vsub row ej) x;
          empcov = map (\<lambda>a. sum_list (map2 (\<lambda>dxi li. (dxi ! a)\<^sup>2 * li ! j) dx like)) [0..<d];
          cov0 = map2 (\<lambda>u v. u + v) (map (\<lambda>v. 1 / v) psj) empcov;
          dxm = vsub ej pmj;
          addcov = sum_list (map (\<lambda>v. v\<^sup>2) dxm);
          cov1 = map (\<lambda>v. v + addcov * apmsj) cov0
      in map (\<lambda>v. v / dofj) cov1)"

text \<open>
  \<open>_Mstep\<close>. A prior attribute that was never set raises AttributeError where it is
  first read. The precision update follows \<open>prec_type\<close>; as in \<open>like_column\<close>, arrays
  whose rank does not fit the branch are outside the model.
\<close>

definition Mstep :: "externals \<Rightarrow> gmm \<Rightarrow> mat \<Rightarrow> mat \<Rightarrow> error + gmm" where
  "Mstep ext m x like0 =
     (let kk = nat (gmm_k m);
          d = nat (gmm_dim m);
          pop0 = pop m like0;
          sl = map (max tiny) (row_sums like0);
          like = div_rows like0 sl
      in case prior_weights m of None \<Rightarrow> Inl (AttributeError ''prior_weights'') | Some pw \<Rightarrow>
         (let w0 = map2 (\<lambda>u v. u + v) pw pop0;
              w = map (\<lambda>v. v / sum_list w0) w0
          in case prior_shrinkage m of None \<Rightarrow> Inl (AttributeError ''prior_shrinkage'') | Some psh \<Rightarrow>
         (let shrinkage = map (\<lambda>p. p + psh) pop0
          in case prior_means m of None \<Rightarrow> Inl (AttributeError ''prior_means'') | Some pm \<Rightarrow>
         (let lx = dot_T kk d like x;
              means0 = mat_add lx (map (map (\<lambda>v. v * psh)) pm);
              mu = div_rows means0 shrinkage;
              empmeans = div_rows lx (map (\<lambda>p. max p tiny) pop0)
          in case prior_scale m of None \<Rightarrow> Inl (AttributeError ''prior_scale'') | Some psc \<Rightarrow>
             case prior_dof m of None \<Rightarrow> Inl (AttributeError ''prior_dof'') | Some pdof \<Rightarrow>
         (let apms = map2 (\<lambda>p s. psh * p / s) pop0 shrinkage;
              dof = map (\<lambda>p. real_of_int pdof + p + real_of_int (gmm_dim m) + 2) pop0
          in if prec_type m = ''full''
             then (case (psc, precisions m) of
                     (Arr3 pscs, Arr3 _) \<Rightarrow>
                       Inr (m\<lparr> weights := w, means := mu,
                               precisions := Arr3 (map (\<lambda>j. pinv ext
                                 (full_cov ext d x like j (empmeans ! j) (pm ! j) (pscs ! j) (apms ! j) (dof ! j)))
                                 [0..<kk]) \<rparr>)
                   | _ \<Rightarrow> Inl (LinAlgError ''Array must be two-dimensional''))
             else (case (psc, precisions m) of
                     (Arr2 pscs, Arr2 _) \<Rightarrow>
                       Inr (m\<lparr> weights := w, means := mu,
                               precisions := Arr2 (map (\<lambda>j. map (\<lambda>v. 1 / v)
                                 (diag_cov d x like j (empmeans ! j) (pm ! j) (pscs ! j) (apms ! j) (dof ! j)))
                                 [0..<kk]) \<rparr>)
                   | _ \<Rightarrow> Inl (ValueError ''shape mismatch'')))))))"

definition update :: "externals \<Rightarrow> gmm \<Rightarrow> mat \<Rightarrow> mat \<Rightarrow> error + gmm" where
  "update ext m x l = Mstep ext m x l"

subsection \<open>Estimation\<close>

text \<open>
  A float that starts as \<open>-np.infty\<close> is a \<open>real option\<close>, \<open>None\<close> for minus
  infinity. \<open>all < allOld + delta\<close> is then \<open>below\<close>, and \<open>bic > bestbic\<close> is \<open>above\<close>.
\<close>

definition below :: "real \<Rightarrow> real option \<Rightarrow> real \<Rightarrow> bool" where
  "below a allOld delta = (case allOld of None \<Rightarrow> False | Some old \<Rightarrow> a < old + delta)"

definition above :: "real \<Rightarrow> real option \<Rightarrow> bool" where
  "above b bestbic = (case bestbic of None \<Rightarrow> True | Some best \<Rightarrow> b > best)"

definition np_mean :: "vec \<Rightarrow> real" where
  "np_mean v = sum_list v / real (length v)"

definition avg_log :: "mat \<Rightarrow> real" where
  "avg_log l = np_mean (map ln (map (\<lambda>s. max s tiny) (row_sums l)))"

text \<open>
  The loop of \<open>estimate\<close>, with the number of iterations that remain. The state is
  \<open>self\<close>, \<open>allOld\<close> and the local \<open>l\<close>, which is unbound (\<open>None\<close>) before the first
  E step. \<open>break\<close> returns at once.
\<close>

fun estimate_loop ::
  "externals \<Rightarrow> mat \<Rightarrow> real \<Rightarrow> nat \<Rightarrow> gmm \<times> real option \<times> mat option \<Rightarrow> error + (gmm \<times> mat option)" where
  "estimate_loop ext x delta 0 (m, allOld, l) = Inr (m, l)"
| "estimate_loop ext x delta (Suc r) (m, allOld, l) =
     bind_err (Estep ext m x) (\<lambda>l'.
       if below (avg_log l') allOld delta then Inr (m, Some l')
       else bind_err (Mstep ext m x l') (\<lambda>m'.
              estimate_loop ext x delta r (m', Some (avg_log l'), Some l')))"

text \<open>\<open>estimate\<close> returns the value of \<open>self.bic(l)\<close> and the updated \<open>self\<close>.\<close>

definition estimate :: "externals \<Rightarrow> gmm \<Rightarrow> mat \<Rightarrow> int \<Rightarrow> real \<Rightarrow> error + (real \<times> gmm)" where
  "estimate ext m x niter delta =
     bind_err (check_x m x) (\<lambda>x'.
     bind_err (estimate_loop ext x' delta (nat niter) (m, None, None)) (\<lambda>(m', l).
     case l of
       None \<Rightarrow> Inl (UnboundLocalError ''l'')
     | Some l' \<Rightarrow> Inr (bic m' l', m')))"

subsection \<open>Initialization and model selection\<close>

text \<open>
  \<open>l = np.zeros((n, k)); l[np.arange(n), z] = 1\<close> for labels \<open>z\<close>, one for each of the
  \<open>n\<close> rows and each below \<open>k\<close>, as the k-means routine promises; other labels are an
  IndexError.
\<close>

definition one_hot :: "nat \<Rightarrow> nat \<Rightarrow> nat list \<Rightarrow> error + mat" where
  "one_hot n kk z =
     (if length z = n \<and> list_all (\<lambda>zi. zi < kk) z
      then Inr (map (\<lambda>zi. map (\<lambda>j. if j = zi then 1 else 0) [0..<kk]) z)
      else Inl (IndexError ''index out of bounds''))"

text \<open>
  \<open>initialize\<close>. The k-means routine starts from random centres: \<open>kmeans ext c\<close> is
  the labelling that its call number \<open>c\<close> returns, and the number of calls made so far
  is threaded through.
\<close>

definition initialize :: "externals \<Rightarrow> nat \<Rightarrow> gmm \<Rightarrow> mat \<Rightarrow> error + (gmm \<times> nat)" where
  "initialize ext c m x =
     (let n = length x
      in bind_err (guess_regularizing m x True) (\<lambda>m1.
         (let (z, c') = (if gmm_k m1 > 1 then (kmeans ext c x (gmm_k m1), Suc c)
                         else (replicate n 0, c))
          in bind_err (one_hot n (nat (gmm_k m1)) z) (\<lambda>l.
             bind_err (update ext m1 x l) (\<lambda>m2. Inr (m2, c'))))))"

text \<open>
  The loop of \<open>initialize_and_estimate\<close>, with the number of cycles that remain. The
  state is \<open>self\<close>, \<open>bestgmm\<close>, \<open>bestbic\<close> and the count of k-means calls.
\<close>

fun iae_loop ::
  "externals \<Rightarrow> mat \<Rightarrow> int \<Rightarrow> real \<Rightarrow> nat \<Rightarrow> gmm \<times> gmm \<times> real option \<times> nat
     \<Rightarrow> error + (gmm \<times> gmm \<times> real option \<times> nat)" where
  "iae_loop ext x niter delta 0 st = Inr st"
| "iae_loop ext x niter delta (Suc r) (self, bestgmm, bestbic, c) =
     bind_err (initialize ext c self x) (\<lambda>(s1, c1).
     bind_err (estimate ext s1 x niter delta) (\<lambda>(b, s2).
       if above b bestbic
       then bind_err (plugin bestgmm (means s2) (precisions s2) (weights s2)) (\<lambda>bg.
              iae_loop ext x niter delta r (s2, bg, Some b, c1))
       else iae_loop ext x niter delta r (s2, bestgmm, bestbic, c1)))"

text \<open>
  \<open>initialize_and_estimate\<close> returns \<open>bestgmm\<close>, the updated \<open>self\<close> and the count of
  k-means calls. The argument \<open>z\<close> is a parameter of the method.
\<close>

definition initialize_and_estimate ::
  "externals \<Rightarrow> nat \<Rightarrow> gmm \<Rightarrow> mat \<Rightarrow> nat list option \<Rightarrow> int \<Rightarrow> real \<Rightarrow> int
     \<Rightarrow> error + (gmm \<times> gmm \<times> nat)" where
  "initialize_and_estimate ext c self x z niter delta ninit =
     bind_err (GMM_init (gmm_k self) (gmm_dim self) (prec_type self) None None None) (\<lambda>bg0.
     bind_err (initialize ext c bg0 x) (\<lambda>(bestgmm, c0).
     bind_err (iae_loop ext x niter delta (nat ninit) (self, bestgmm, None, c0))
       (\<lambda>(self', bestgmm', bestbic', c'). Inr (bestgmm', self', c'))))"

definition train ::
  "externals \<Rightarrow> nat \<Rightarrow> gmm \<Rightarrow> mat \<Rightarrow> nat list option \<Rightarrow> int \<Rightarrow> real \<Rightarrow> int
     \<Rightarrow> error + (gmm \<times> gmm \<times> nat)" where
  "train ext c self x z niter delta ninit = initialize_and_estimate ext c self x z niter delta ninit"



section \<open>Definitions of the specification\<close>

text \<open>
  The evidence as the specification writes it: the sum over the samples of the logarithm
  of the floored row sum, minus \<open>log n\<close> times the number of free parameters, which is
  \<open>k*(1+dim+dim*(dim+1)/2) - 1\<close> for a full and \<open>k*(1+2*dim) - 1\<close> for a diagonal
  parameterization.
\<close>

definition free_parameters_spec :: "gmm \<Rightarrow> int" where
  "free_parameters_spec m =
     (if prec_type m = ''full''
      then gmm_k m * (1 + gmm_dim m + gmm_dim m * (gmm_dim m + 1) div 2) - 1
      else gmm_k m * (1 + 2 * gmm_dim m) - 1)"

definition evidence_spec :: "gmm \<Rightarrow> mat \<Rightarrow> real" where
  "evidence_spec m like =
     (\<Sum>i<length like. ln (max (sum_list (like ! i)) tiny))
       - ln (real (length like)) * real_of_int (free_parameters_spec m)"

text \<open>
  The soft assignments of the specification's M step, entry by entry: \<open>nl\<close> is \<open>L\<close>
  with each row divided by its row sum floored at \<open>tiny\<close>, and \<open>pop[i]\<close> is the sum of
  column \<open>i\<close> of \<open>nl\<close>.
\<close>

definition nl_spec :: "mat \<Rightarrow> nat \<Rightarrow> nat \<Rightarrow> real" where
  "nl_spec l t i = l ! t ! i / max tiny (sum_list (l ! t))"

definition pop_spec :: "mat \<Rightarrow> nat \<Rightarrow> real" where
  "pop_spec l i = (\<Sum>t<length l. nl_spec l t i)"



text \<open>
  The convergence controller of the specification, as a step relation. In the state
  \<open>Iterating i m prev lo\<close>, \<open>i\<close> iterations are done, \<open>m\<close> is the model, \<open>prev\<close> is
  \<open>previousAll\<close> (\<open>None\<close> for minus infinity) and \<open>lo\<close> is the matrix of the last E step.
  An iteration runs the E step and computes \<open>all\<close>; if \<open>all < previousAll + delta\<close> the
  controller is \<open>Converged\<close> with the matrix just computed, and the M step does not run;
  otherwise \<open>previousAll\<close> becomes \<open>all\<close> and the M step runs. After \<open>niter\<close> iterations
  the controller is \<open>Exhausted\<close>. The evidence returned is the BIC of the matrix held by
  the final state.
\<close>

datatype em_state =
    Iterating nat gmm "real option" "mat option"
  | Converged gmm mat
  | Exhausted gmm mat

inductive em_step :: "externals \<Rightarrow> mat \<Rightarrow> int \<Rightarrow> real \<Rightarrow> em_state \<Rightarrow> em_state \<Rightarrow> bool"
  for ext :: externals and x :: mat and niter :: int and delta :: real where
  converge:
    "int i < niter \<Longrightarrow> Estep ext m x = Inr l \<Longrightarrow> below (avg_log l) prev delta
       \<Longrightarrow> em_step ext x niter delta (Iterating i m prev lo) (Converged m l)"
| iterate:
    "int i < niter \<Longrightarrow> Estep ext m x = Inr l \<Longrightarrow> \<not> below (avg_log l) prev delta
       \<Longrightarrow> Mstep ext m x l = Inr m'
       \<Longrightarrow> em_step ext x niter delta (Iterating i m prev lo)
             (Iterating (Suc i) m' (Some (avg_log l)) (Some l))"
| exhaust:
    "int i = niter
       \<Longrightarrow> em_step ext x niter delta (Iterating i m prev (Some l)) (Exhausted m l)"

text \<open>
  A model on which the E and M steps are defined: the prior is set, and the precisions
  and the prior scale have the rank of \<open>prec_type\<close>.
\<close>

definition ranked :: "gmm \<Rightarrow> bool" where
  "ranked m =
     (prior_means m \<noteq> None \<and> prior_weights m \<noteq> None \<and> prior_shrinkage m \<noteq> None
      \<and> prior_dof m \<noteq> None
      \<and> map_option ndim (prior_scale m) = Some (if prec_type m = ''full'' then 3 else 2)
      \<and> ndim (precisions m) = (if prec_type m = ''full'' then 3 else 2))"



text \<open>
  The selection of the specification: candidate \<open>i\<close> is kept when no candidate has a
  greater evidence and every candidate seen before it has a strictly smaller one.
\<close>

definition first_best :: "(real \<times> 'a) list \<Rightarrow> nat \<Rightarrow> bool" where
  "first_best cs i =
     (i < length cs
      \<and> (\<forall>j<length cs. fst (cs ! j) \<le> fst (cs ! i))
      \<and> (\<forall>j<i. fst (cs ! j) < fst (cs ! i)))"


text \<open>Shapes and signs of arrays: \<open>r\<close> rows of \<open>c\<close> entries, no negative entry, only zeros.\<close>

definition rect :: "nat \<Rightarrow> nat \<Rightarrow> 'a list list \<Rightarrow> bool" where
  "rect r c a = (length a = r \<and> list_all (\<lambda>row. length row = c) a)"

definition nonneg :: "mat \<Rightarrow> bool" where
  "nonneg a = list_all (list_all (\<lambda>v. 0 \<le> v)) a"


section \<open>Example inputs\<close>

text \<open>
  Stand-ins for the library routines, used only to evaluate the model on examples:
  the diagonal as eigenvalues, the identity as pseudo-inverse, and a k-means that puts
  every row in cluster 0.
\<close>

definition ext_example :: externals where
  "ext_example = \<lparr> eigvalsh = (\<lambda>b. map (\<lambda>i. b ! i ! i) [0..<length b]),
                    pinv = (\<lambda>a. a),
                    kmeans = (\<lambda>c x k. replicate (length x) 0) \<rparr>"

text \<open>The default diagonal model with one component in one dimension.\<close>

definition diag_fresh :: gmm where
  "diag_fresh = \<lparr> gmm_k = 1, gmm_dim = 1, prec_type = ''diag'', means = [[0]],
       precisions = Arr2 [[1]], weights = [1], prior_means = None,
       prior_weights = None, prior_scale = None, prior_dof = None,
       prior_shrinkage = None \<rparr>"

text \<open>The same model with the prior that \<open>guess_regularizing\<close> sets for the data \<open>[[0], [2]]\<close>.\<close>

definition diag_example :: gmm where
  "diag_example = \<lparr> gmm_k = 1, gmm_dim = 1, prec_type = ''diag'', means = [[0]],
       precisions = Arr2 [[1]], weights = [1], prior_means = Some [[1]],
       prior_weights = Some [1], prior_scale = Some (Arr2 [[1]]), prior_dof = Some 3,
       prior_shrinkage = Some (1 / 100) \<rparr>"

text \<open>The default full model with one component in two dimensions.\<close>

definition full_example :: gmm where
  "full_example = \<lparr> gmm_k = 1, gmm_dim = 2, prec_type = ''full'', means = [[0, 0]],
       precisions = Arr3 [[[1, 0], [0, 1]]], weights = [1], prior_means = None,
       prior_weights = None, prior_scale = None, prior_dof = None,
       prior_shrinkage = None \<rparr>"

section \<open>Auxiliary facts\<close>

lemma bind_err_Inr [simp]: "bind_err (Inr v) f = f v"
  by (simp add: bind_err_def)

lemma bind_err_Inl [simp]: "bind_err (Inl e) f = Inl e"
  by (simp add: bind_err_def)


lemma shape0_replicate [simp]: "shape0 (replicate n r) = int n"
  by (simp add: shape0_def)

lemma shape1_replicate: "0 < n \<Longrightarrow> shape1 (replicate n r) = int (length r)"
  by (cases n) (simp_all add: shape1_def)

lemma shape2_replicate: "0 < n \<Longrightarrow> shape2 (replicate n r) = shape1 r"
  by (cases n) (simp_all add: shape2_def)

lemma shape1_map_upt: "0 < n \<Longrightarrow> shape1 (map f [0..<n]) = int (length (f 0))"
  by (simp add: shape1_def upt_conv_Cons)

lemma tiny_pos: "0 < tiny"
  by (simp add: tiny_def)

lemma sum_list_map_nth:
  "sum_list (map f xs) = (\<Sum>t<length xs. f (xs ! t))"
proof -
  have "sum_list (map f xs) = (\<Sum>t = 0..<length (map f xs). map f xs ! t)"
    by (rule sum_list_sum_nth)
  also have "\<dots> = (\<Sum>t = 0..<length xs. f (xs ! t))"
    by (intro sum.cong) simp_all
  finally show ?thesis by (simp add: lessThan_atLeast0)
qed

lemma sum_list_map2_nth:
  assumes "length xs = length ys"
  shows "sum_list (map2 f xs ys) = (\<Sum>t<length xs. f (xs ! t) (ys ! t))"
proof -
  have "sum_list (map2 f xs ys) = (\<Sum>t = 0..<length (map2 f xs ys). map2 f xs ys ! t)"
    by (rule sum_list_sum_nth)
  also have "\<dots> = (\<Sum>t = 0..<length xs. f (xs ! t) (ys ! t))"
    using assms by (intro sum.cong) simp_all
  finally show ?thesis by (simp add: lessThan_atLeast0)
qed



lemma rect_nth: "rect r c a \<Longrightarrow> t < r \<Longrightarrow> length (a ! t) = c"
  by (auto simp add: rect_def list_all_length)

lemma nonneg_nth: "nonneg a \<Longrightarrow> t < length a \<Longrightarrow> i < length (a ! t) \<Longrightarrow> 0 \<le> a ! t ! i"
  by (auto simp add: nonneg_def list_all_length)


section \<open>Construction and validation\<close>

lemma GMM_init_default:
  assumes "0 \<le> k" "0 \<le> d"
  shows "GMM_init k d pt None None None =
     Inr \<lparr> gmm_k = k, gmm_dim = d, prec_type = pt,
           means = replicate (nat k) (replicate (nat d) 0),
           precisions = (if pt = ''full''
              then Arr3 (replicate (nat k)
                     (map (\<lambda>i. map (\<lambda>j. if i = j then 1 else 0) [0..<nat d]) [0..<nat d]))
              else Arr2 (replicate (nat k) (replicate (nat d) 1))),
           weights = replicate (nat k) (1 / real_of_int k),
           prior_means = None, prior_weights = None, prior_scale = None,
           prior_dof = None, prior_shrinkage = None \<rparr>"
  using assms
  by (simp add: GMM_init_def np_zeros2_def np_eye_def nd_repeat0_def np_repeat0_def np_ones1_def
      np_ones2_def)

lemma check_default:
  assumes "1 \<le> k" "1 \<le> d" "pt = ''full'' \<or> pt = ''diag''"
    and init: "GMM_init k d pt None None None = Inr m"
  shows "check m = Inr ()"
proof -
  have kd: "0 < nat k" "0 < nat d" using assms by simp_all
  have "GMM_init k d pt None None None =
     Inr \<lparr> gmm_k = k, gmm_dim = d, prec_type = pt,
           means = replicate (nat k) (replicate (nat d) 0),
           precisions = (if pt = ''full''
              then Arr3 (replicate (nat k)
                     (map (\<lambda>i. map (\<lambda>j. if i = j then 1 else 0) [0..<nat d]) [0..<nat d]))
              else Arr2 (replicate (nat k) (replicate (nat d) 1))),
           weights = replicate (nat k) (1 / real_of_int k),
           prior_means = None, prior_weights = None, prior_scale = None,
           prior_dof = None, prior_shrinkage = None \<rparr>" (is "_ = Inr ?m")
    using assms by (intro GMM_init_default) simp_all
  then have m: "m = ?m" using init by simp
  show ?thesis
    unfolding m using assms(1-3) kd
    by (auto simp add: check_def nd_shape_def shape1_replicate shape2_replicate shape1_map_upt)
qed

text \<open>
  C8. For every \<open>k \<ge> 1\<close> and \<open>dim \<ge> 1\<close>, the model constructed without explicit
  parameters (with \<open>prec_type\<close> \<open>'full'\<close> or \<open>'diag'\<close>) has \<open>k\<close> rows of \<open>dim\<close> zeros as
  means, \<open>k\<close> copies of the \<open>dim\<close>-by-\<open>dim\<close> identity as precisions when full and \<open>k\<close>
  rows of \<open>dim\<close> ones when diagonal, the weights \<open>1/k\<close>, and it passes \<open>check\<close>.
\<close>

theorem default_model_checks:
  assumes "1 \<le> k" "1 \<le> d" "pt = ''full'' \<or> pt = ''diag''"
  shows "\<exists>m. GMM_init k d pt None None None = Inr m
     \<and> means m = replicate (nat k) (replicate (nat d) 0)
     \<and> (pt = ''full'' \<longrightarrow> (\<exists>ps. precisions m = Arr3 ps \<and> length ps = nat k
           \<and> (\<forall>c<nat k. length (ps ! c) = nat d
               \<and> (\<forall>i<nat d. length (ps ! c ! i) = nat d
                   \<and> (\<forall>j<nat d. ps ! c ! i ! j = (if i = j then 1 else 0))))))
     \<and> (pt = ''diag'' \<longrightarrow> precisions m = Arr2 (replicate (nat k) (replicate (nat d) 1)))
     \<and> weights m = replicate (nat k) (1 / real_of_int k)
     \<and> check m = Inr ()"
proof -
  have init: "GMM_init k d pt None None None =
     Inr \<lparr> gmm_k = k, gmm_dim = d, prec_type = pt,
           means = replicate (nat k) (replicate (nat d) 0),
           precisions = (if pt = ''full''
              then Arr3 (replicate (nat k)
                     (map (\<lambda>i. map (\<lambda>j. if i = j then 1 else 0) [0..<nat d]) [0..<nat d]))
              else Arr2 (replicate (nat k) (replicate (nat d) 1))),
           weights = replicate (nat k) (1 / real_of_int k),
           prior_means = None, prior_weights = None, prior_scale = None,
           prior_dof = None, prior_shrinkage = None \<rparr>" (is "_ = Inr ?m")
    using assms by (intro GMM_init_default) simp_all
  have chk: "check ?m = Inr ()"
    by (rule check_default[OF assms init])
  show ?thesis
    unfolding init using chk by auto
qed

theorem default_model_checks_witness:
  "\<exists>m. GMM_init 2 1 ''full'' None None None = Inr m
     \<and> means m = [[0], [0]] \<and> precisions m = Arr3 [[[1]], [[1]]]
     \<and> weights m = [1 / 2, 1 / 2] \<and> check m = Inr ()"
  using default_model_checks[of 2 1 "''full''"]
  by (auto simp add: GMM_init_default numeral_2_eq_2)




section \<open>The evidence\<close>

lemma bic_sum:
  "bic m like =
     (\<Sum>i<length like. ln (max (sum_list (like ! i)) tiny))
       - ln (real (length like)) * real_of_int
           (if prec_type m = ''full''
            then gmm_k m * (1 + gmm_dim m + (gmm_dim m * gmm_dim m + 1) div 2) - 1
            else gmm_k m * (1 + 2 * gmm_dim m) - 1)"
proof -
  have "sum_list (map ln (map (\<lambda>s. max s tiny) (row_sums like)))
      = (\<Sum>i<length like. ln (max (sum_list (like ! i)) tiny))"
    by (simp add: row_sums_def sum_list_map_nth comp_def)
  then show ?thesis
    by (simp add: bic_def Let_def)
qed

lemma bic_evidence_spec_diag:
  "prec_type m \<noteq> ''full'' \<Longrightarrow> bic m like = evidence_spec m like"
  by (simp add: bic_sum evidence_spec_def free_parameters_spec_def)

lemma bic_evidence_spec_full:
  "prec_type m = ''full'' \<Longrightarrow>
     bic m like = evidence_spec m like
       + ln (real (length like)) * real_of_int (gmm_k m
           * (gmm_dim m * (gmm_dim m + 1) div 2 - (gmm_dim m * gmm_dim m + 1) div 2))"
  by (simp add: bic_sum evidence_spec_def free_parameters_spec_def algebra_simps)

text \<open>
  C1 fails on the code for full precisions. For the default full model with one
  component in two dimensions and the likelihood matrix \<open>[[1], [1]]\<close>, \<open>bic\<close> counts
  \<open>1*(1+2+(2*2+1)/2) - 1 = 4\<close> parameters and returns \<open>-4 ln 2\<close>, where the evidence of
  the specification counts \<open>1*(1+2+2*3/2) - 1 = 5\<close> and is \<open>-5 ln 2\<close>.
\<close>

theorem bic_full_parameter_count:
  "GMM_init 1 2 ''full'' None None None = Inr full_example
   \<and> bic full_example [[1], [1]] = - (4 * ln 2)
   \<and> evidence_spec full_example [[1], [1]] = - (5 * ln 2)
   \<and> bic full_example [[1], [1]] \<noteq> evidence_spec full_example [[1], [1]]"
proof -
  have init: "GMM_init 1 2 ''full'' None None None = Inr full_example"
    by (simp add: GMM_init_default full_example_def upt_rec numeral_2_eq_2)
  have b: "bic full_example [[1], [1]] = - (4 * ln 2)"
    by (simp add: bic_def full_example_def row_sums_def tiny_def)
  have e: "evidence_spec full_example [[1], [1]] = - (5 * ln 2)"
    by (simp add: evidence_spec_def free_parameters_spec_def full_example_def tiny_def
        lessThan_Suc numeral_2_eq_2)
  have "(0::real) < ln 2" by simp
  then have "- (4 * ln 2) \<noteq> - (5 * ln (2::real))" by simp
  with init b e show ?thesis by simp
qed

section \<open>The M step\<close>

lemma normalised_nth:
  assumes "t < length l" "i < length (l ! t)"
  shows "div_rows l (map (max tiny) (row_sums l)) ! t ! i = nl_spec l t i"
  using assms by (simp add: div_rows_def row_sums_def nl_spec_def)

lemma normalised_length [simp]:
  "length (div_rows l (map (max tiny) (row_sums l))) = length l"
  by (simp add: div_rows_def row_sums_def)

lemma normalised_row_length:
  "t < length l \<Longrightarrow> length (div_rows l (map (max tiny) (row_sums l)) ! t) = length (l ! t)"
  by (simp add: div_rows_def row_sums_def)

lemma pop_length [simp]: "length (pop m l) = nat (gmm_k m)"
  by (simp add: pop_def col_sums_def)

lemma pop_nth:
  assumes "rect n (nat (gmm_k m)) l" "i < nat (gmm_k m)"
  shows "pop m l ! i = pop_spec l i"
proof -
  have n: "length l = n" using assms by (simp add: rect_def)
  have "pop m l ! i = sum_list (map (\<lambda>row. row ! i) (div_rows l (map (max tiny) (row_sums l))))"
    using assms by (simp add: pop_def col_sums_def)
  also have "\<dots> = (\<Sum>t<length l. div_rows l (map (max tiny) (row_sums l)) ! t ! i)"
    by (simp add: sum_list_map_nth)
  also have "\<dots> = (\<Sum>t<length l. nl_spec l t i)"
    using assms n by (intro sum.cong refl normalised_nth) (simp_all add: rect_nth)
  finally show ?thesis by (simp add: pop_spec_def)
qed

lemma nl_spec_nonneg:
  assumes "nonneg l" "t < length l" "i < length (l ! t)"
  shows "0 \<le> nl_spec l t i"
  using nonneg_nth[OF assms] tiny_pos by (simp add: nl_spec_def)





lemma Mstep_means_eq:
  assumes "Mstep ext m x l = Inr m'" "prior_means m = Some pm" "prior_shrinkage m = Some psh"
  shows "means m' =
      div_rows (mat_add (dot_T (nat (gmm_k m)) (nat (gmm_dim m))
                           (div_rows l (map (max tiny) (row_sums l))) x)
                        (map (map (\<lambda>v. v * psh)) pm))
               (map (\<lambda>p. p + psh) (pop m l))"
  using assms
  by (auto simp add: Mstep_def Let_def split: option.splits ndarray.splits if_splits)

lemma Mstep_diag_example:
  "Mstep ext_example diag_example [[0], [2]] [[0], [0]] =
     Inr (diag_example\<lparr>weights := [1], means := [[1]], precisions := Arr2 [[6]]\<rparr>)"
  by (simp add: Mstep_def diag_example_def pop_def row_sums_def div_rows_def col_sums_def
      dot_T_def mat_add_def diag_cov_def vsub_def tiny_def Let_def)





lemma dot_T_nth:
  assumes "length nl = length x" "i < c" "a < d"
  shows "dot_T c d nl x ! i ! a = (\<Sum>t<length x. nl ! t ! i * x ! t ! a)"
  using assms by (simp add: dot_T_def sum_list_map2_nth)

lemma dot_T_rect: "rect c d (dot_T c d nl x)"
  by (simp add: rect_def dot_T_def list_all_length)

lemma mat_add_nth:
  assumes "rect c d a" "rect c d b" "i < c" "j < d"
  shows "mat_add a b ! i ! j = a ! i ! j + b ! i ! j"
  using assms by (simp add: mat_add_def rect_def list_all_length)

lemma mat_add_rect:
  assumes "rect c d a" "rect c d b"
  shows "rect c d (mat_add a b)"
  using assms by (simp add: mat_add_def rect_def list_all_length)

lemma div_rows_nth:
  assumes "rect c d a" "length s = c" "i < c" "j < d"
  shows "div_rows a s ! i ! j = a ! i ! j / s ! i"
  using assms by (simp add: div_rows_def rect_def list_all_length)

lemma div_rows_rect:
  assumes "rect c d a" "length s = c"
  shows "rect c d (div_rows a s)"
  using assms by (simp add: div_rows_def rect_def list_all_length)

lemma scale_rect: "rect c d a \<Longrightarrow> rect c d (map (map f) a)"
  by (simp add: rect_def list_all_length)

lemma scale_nth: "rect c d a \<Longrightarrow> i < c \<Longrightarrow> j < d \<Longrightarrow> map (map f) a ! i ! j = f (a ! i ! j)"
  by (simp add: rect_def list_all_length)

lemma pop_spec_zero:
  assumes "rect n c l" "nonneg l" "i < c" "pop_spec l i = 0" "t < n"
  shows "nl_spec l t i = 0"
proof -
  have len: "length l = n" and row: "\<And>s. s < n \<Longrightarrow> length (l ! s) = c"
    using assms(1) by (simp_all add: rect_def list_all_length)
  have "\<forall>s\<in>{..<length l}. nl_spec l s i = 0"
    using assms len row
    by (subst sum_nonneg_eq_0_iff[symmetric]) (simp_all add: nl_spec_nonneg pop_spec_def)
  then show ?thesis using assms(5) len by simp
qed

text \<open>
  C6. For a dataset of \<open>n\<close> rows and a responsibility matrix of \<open>n\<close> rows and \<open>k\<close>
  columns without negative entries, the M step sets
  \<open>means[i] = ((nl\<^sup>T X)[i] + prior_means[i] * prior_shrinkage) / (pop[i] + prior_shrinkage)\<close>,
  where \<open>nl\<close> is \<open>L\<close> with each row divided by its row sum floored at \<open>tiny\<close> and
  \<open>pop[i]\<close> is the sum of column \<open>i\<close> of \<open>nl\<close>. A component with \<open>pop[i] = 0\<close> gets
  \<open>prior_means[i]\<close>, the prior shrinkage being other than 0 (it is 0.01).
\<close>

theorem Mstep_means:
  assumes step: "Mstep ext m x l = Inr m'"
    and pm: "prior_means m = Some pm" "rect (nat (gmm_k m)) (nat (gmm_dim m)) pm"
    and psh: "prior_shrinkage m = Some psh"
    and l: "rect n (nat (gmm_k m)) l" "nonneg l"
    and x: "rect n (nat (gmm_dim m)) x"
  shows "rect (nat (gmm_k m)) (nat (gmm_dim m)) (means m')
     \<and> (\<forall>i<nat (gmm_k m). \<forall>a<nat (gmm_dim m).
          means m' ! i ! a =
            ((\<Sum>t<n. nl_spec l t i * x ! t ! a) + pm ! i ! a * psh) / (pop_spec l i + psh))
     \<and> (psh \<noteq> 0 \<longrightarrow> (\<forall>i<nat (gmm_k m). pop_spec l i = 0 \<longrightarrow> means m' ! i = pm ! i))"
proof -
  define c where "c = nat (gmm_k m)"
  define d where "d = nat (gmm_dim m)"
  define nl where "nl = div_rows l (map (max tiny) (row_sums l))"
  define lx where "lx = dot_T c d nl x"
  define shr where "shr = map (\<lambda>p. p + psh) (pop m l)"
  have mu: "means m' = div_rows (mat_add lx (map (map (\<lambda>v. v * psh)) pm)) shr"
    unfolding lx_def nl_def shr_def c_def d_def by (rule Mstep_means_eq[OF step pm(1) psh])
  have lenl: "length l = n" and lenx: "length x = n"
    using l(1) x by (simp_all add: rect_def)
  have lennl: "length nl = length x"
    by (simp add: nl_def lenl lenx)
  have nl_nth: "nl ! t ! i = nl_spec l t i" if "t < n" "i < c" for t i
    unfolding nl_def using that l(1) lenl by (intro normalised_nth) (simp_all add: rect_nth c_def)
  have lx_nth: "lx ! i ! a = (\<Sum>t<n. nl_spec l t i * x ! t ! a)" if "i < c" "a < d" for i a
  proof -
    have "lx ! i ! a = (\<Sum>t<length x. nl ! t ! i * x ! t ! a)"
      unfolding lx_def by (rule dot_T_nth[OF lennl that])
    also have "\<dots> = (\<Sum>t<n. nl_spec l t i * x ! t ! a)"
      using that by (intro sum.cong) (simp_all add: lenx nl_nth)
    finally show ?thesis .
  qed
  have rlx: "rect c d lx" unfolding lx_def by (rule dot_T_rect)
  have rpm: "rect c d pm" using pm(2) by (simp add: c_def d_def)
  have rsum: "rect c d (mat_add lx (map (map (\<lambda>v. v * psh)) pm))"
    by (intro mat_add_rect rlx scale_rect rpm)
  have lshr: "length shr = c" by (simp add: shr_def c_def)
  have shr_nth: "shr ! i = pop_spec l i + psh" if "i < c" for i
    using that l(1) by (simp add: shr_def c_def pop_nth)
  have r: "rect c d (means m')"
    unfolding mu by (rule div_rows_rect[OF rsum lshr])
  have f: "means m' ! i ! a =
      ((\<Sum>t<n. nl_spec l t i * x ! t ! a) + pm ! i ! a * psh) / (pop_spec l i + psh)"
    if "i < c" "a < d" for i a
    using that
    by (simp add: mu div_rows_nth[OF rsum lshr] mat_add_nth[OF rlx scale_rect[OF rpm]]
        scale_nth[OF rpm] lx_nth shr_nth)
  have z: "means m' ! i = pm ! i" if "psh \<noteq> 0" "i < c" "pop_spec l i = 0" for i
  proof (rule nth_equalityI)
    show "length (means m' ! i) = length (pm ! i)"
      using r rpm that(2) by (simp add: rect_nth)
  next
    fix a assume "a < length (means m' ! i)"
    then have a: "a < d" using r that(2) by (simp add: rect_nth)
    have "nl_spec l t i = 0" if "t < n" for t
      using l that \<open>i < c\<close> \<open>pop_spec l i = 0\<close> unfolding c_def by (intro pop_spec_zero[of n "nat (gmm_k m)" l i t]) simp_all
    then have "(\<Sum>t<n. nl_spec l t i * x ! t ! a) = 0" by simp
    then show "means m' ! i ! a = pm ! i ! a"
      using that a by (simp add: f)
  qed
  show ?thesis
    using r f z unfolding c_def d_def by blast
qed

theorem Mstep_means_witness:
  "\<exists>m'. Mstep ext_example diag_example [[0], [2]] [[0], [0]] = Inr m'
      \<and> pop_spec [[0], [0]] 0 = 0
      \<and> means m' ! 0 = [1]
      \<and> means m' ! 0 ! 0 =
          ((\<Sum>t<2. nl_spec [[0], [0]] t 0 * [[0], [2]] ! t ! 0) + 1 * (1 / 100))
            / (pop_spec [[0], [0]] 0 + 1 / 100)"
proof -
  let ?m' = "diag_example\<lparr>weights := [1], means := [[1]], precisions := Arr2 [[6]]\<rparr>"
  have step: "Mstep ext_example diag_example [[0], [2]] [[0], [0]] = Inr ?m'"
    by (rule Mstep_diag_example)
  have p: "pop_spec [[0], [0]] 0 = 0"
    by (simp add: pop_spec_def nl_spec_def)
  have "rect (nat (gmm_k diag_example)) (nat (gmm_dim diag_example)) (means ?m')
     \<and> (\<forall>i<nat (gmm_k diag_example). \<forall>a<nat (gmm_dim diag_example).
          means ?m' ! i ! a =
            ((\<Sum>t<2. nl_spec [[0], [0]] t i * [[0], [2]] ! t ! a) + [[1]] ! i ! a * (1 / 100))
              / (pop_spec [[0], [0]] i + 1 / 100))
     \<and> ((1 / 100 :: real) \<noteq> 0 \<longrightarrow> (\<forall>i<nat (gmm_k diag_example).
            pop_spec [[0], [0]] i = 0 \<longrightarrow> means ?m' ! i = [[1]] ! i))"
    by (rule Mstep_means[OF step, of "[[1]]" "1 / 100" 2])
       (simp_all add: diag_example_def rect_def nonneg_def)
  then have "means ?m' ! 0 = [1]"
    and "means ?m' ! 0 ! 0 =
          ((\<Sum>t<2. nl_spec [[0], [0]] t 0 * [[0], [2]] ! t ! 0) + 1 * (1 / 100))
            / (pop_spec [[0], [0]] 0 + 1 / 100)"
    using p by (simp_all add: diag_example_def)
  with step p show ?thesis by blast
qed

lemma np_repeat0_single:
  "0 \<le> r \<Longrightarrow> np_repeat0 [a] r = Inr (replicate (nat r) a)"
  by (simp add: np_repeat0_def)











lemma guess_regularizing_example:
  "guess_regularizing diag_fresh [[0], [2]] True = Inr diag_example"
  by (simp add: guess_regularizing_def diag_fresh_def diag_example_def shape1_def col_means_def
      vsub_def dot_T_def diag_of_def nd_scale_def nd_repeat0_def np_repeat0_def np_ones1_def
      check_def nd_shape_def shape0_def Let_def)


section \<open>Estimation\<close>

lemma check_x_example: "check_x diag_example [[0], [2]] = Inr [[0], [2]]"
  by (simp add: check_x_def reshape_rows_def reshape_cols_def diag_example_def)

text \<open>
  C10. With \<open>niter = 0\<close> (or less) \<open>estimate\<close> never returns a value: the loop body
  does not run, and for a dataset that \<open>check_x\<close> accepts the call ends in the error
  for the unbound local \<open>l\<close> (for another dataset \<open>check_x\<close> has raised before).
\<close>

theorem estimate_without_iterations:
  assumes "niter \<le> 0"
  shows "(\<forall>r. estimate ext m x niter delta \<noteq> Inr r)
       \<and> (\<forall>x'. check_x m x = Inr x'
             \<longrightarrow> estimate ext m x niter delta = Inl (UnboundLocalError ''l''))"
  using assms by (cases "check_x m x") (simp_all add: estimate_def)

theorem estimate_without_iterations_witness:
  "estimate ext_example diag_example [[0], [2]] 0 (1 / 10000) = Inl (UnboundLocalError ''l'')"
  using estimate_without_iterations[of 0 ext_example diag_example "[[0], [2]]" "1 / 10000"]
  by (simp add: check_x_example)

inductive_cases em_step_IteratingE: "em_step ext x niter delta (Iterating i m prev lo) t"















section \<open>Model selection\<close>

lemma first_best_unique:
  assumes "first_best cs i" "first_best cs j"
  shows "i = j"
proof (rule ccontr)
  assume "i \<noteq> j"
  then consider "i < j" | "j < i" by linarith
  then show False
  proof cases
    case 1
    then have "fst (cs ! i) < fst (cs ! j)" using assms(2) by (simp add: first_best_def)
    moreover have "fst (cs ! j) \<le> fst (cs ! i)" using assms by (simp add: first_best_def)
    ultimately show False by simp
  next
    case 2
    then have "fst (cs ! j) < fst (cs ! i)" using assms(1) by (simp add: first_best_def)
    moreover have "fst (cs ! i) \<le> fst (cs ! j)" using assms by (simp add: first_best_def)
    ultimately show False by simp
  qed
qed












text \<open>
  C9. The argument \<open>z\<close> of \<open>initialize_and_estimate\<close> and of \<open>train\<close> has no effect:
  two calls that differ only in \<open>z\<close> (with the same outcomes of the k-means calls) give
  the same result, error or models.
\<close>

theorem initial_labels_ignored:
  "initialize_and_estimate ext c self x z niter delta ninit
     = initialize_and_estimate ext c self x z' niter delta ninit
   \<and> train ext c self x z niter delta ninit = train ext c self x z' niter delta ninit"
  by (simp add: train_def initialize_and_estimate_def)

lemma check_cong:
  assumes "gmm_k a = gmm_k b" "gmm_dim a = gmm_dim b" "prec_type a = prec_type b"
  shows "check (a\<lparr>means := means b, precisions := precisions b, weights := weights b\<rparr>) = check b"
  using assms by (simp add: check_def)

lemma one_hot_example: "one_hot (Suc (Suc 0)) (Suc 0) [0, 0] = Inr [[1], [1]]"
  by (simp add: one_hot_def)

lemma Mstep_init_example:
  "Mstep ext_example diag_example [[0], [2]] [[1], [1]] =
     Inr (diag_example\<lparr>weights := [1], means := [[1]], precisions := Arr2 [[8 / 3]]\<rparr>)"
  by (simp add: Mstep_def diag_example_def pop_def row_sums_def div_rows_def col_sums_def
      dot_T_def mat_add_def diag_cov_def vsub_def tiny_def Let_def)

lemma initialize_example:
  "initialize ext_example c diag_fresh [[0], [2]] =
     Inr (diag_example\<lparr>weights := [1], means := [[1]], precisions := Arr2 [[8 / 3]]\<rparr>, c)"
proof -
  have k: "gmm_k diag_example = 1" by (simp add: diag_example_def)
  show ?thesis
    by (simp add: initialize_def guess_regularizing_example k one_hot_example update_def
        Mstep_init_example)
qed

lemma estimate_example:
  "\<exists>b m'. estimate ext_example
            (diag_example\<lparr>weights := [1], means := [[1]], precisions := Arr2 [[8 / 3]]\<rparr>)
            [[0], [2]] 1 (1 / 10000) = Inr (b, m')
     \<and> check m' = Inr () \<and> gmm_k m' = 1 \<and> gmm_dim m' = 1 \<and> prec_type m' = ''diag''
     \<and> ndim (precisions m') = 2"
  apply (simp add: estimate_def check_x_def reshape_rows_def reshape_cols_def Estep_def
      likelihood_def unweighted_likelihood_def like_column_def diag_example_def
      from_columns_def vsub_def Let_def below_def)
  apply (simp add: Mstep_def diag_example_def pop_def row_sums_def div_rows_def col_sums_def
      dot_T_def mat_add_def diag_cov_def vsub_def Let_def check_def nd_shape_def shape0_def
      shape1_def)
  done

lemma iae_example:
  "\<exists>best self'. initialize_and_estimate ext_example c diag_fresh [[0], [2]] z 1 (1 / 10000) 1
                   = Inr (best, self', c)
     \<and> ranked best \<and> gmm_dim best = 1"
proof -
  let ?m1 = "diag_example\<lparr>weights := [1], means := [[1]], precisions := Arr2 [[8 / 3]]\<rparr>"
  from estimate_example obtain b m2
    where e: "estimate ext_example ?m1 [[0], [2]] 1 (1 / 10000) = Inr (b, m2)"
      and m2: "check m2 = Inr ()" "gmm_k m2 = 1" "gmm_dim m2 = 1" "prec_type m2 = ''diag''"
        "ndim (precisions m2) = 2"
    by blast
  let ?best = "?m1\<lparr>means := means m2, precisions := precisions m2, weights := weights m2\<rparr>"
  have "check ?best = check m2"
    using m2 by (intro check_cong) (simp_all add: diag_example_def)
  then have p: "plugin ?m1 (means m2) (precisions m2) (weights m2) = Inr ?best"
    using m2(1) by (simp add: plugin_def Let_def)
  have g: "GMM_init (gmm_k diag_fresh) (gmm_dim diag_fresh) (prec_type diag_fresh) None None None
             = Inr diag_fresh"
    by (simp add: GMM_init_default diag_fresh_def)
  have "initialize_and_estimate ext_example c diag_fresh [[0], [2]] z 1 (1 / 10000) 1
          = Inr (?best, m2, c)"
    using p by (simp add: initialize_and_estimate_def g initialize_example e above_def)
  moreover have "ranked ?best"
    using m2 by (simp add: ranked_def diag_example_def)
  moreover have "gmm_dim ?best = 1"
    by (simp add: diag_example_def)
  ultimately show ?thesis by blast
qed




theorem initial_labels_ignored_witness:
  "initialize_and_estimate ext_example 0 diag_fresh [[0], [2]] None 1 (1 / 10000) 1
     = initialize_and_estimate ext_example 0 diag_fresh [[0], [2]] (Some [1, 0]) 1 (1 / 10000) 1
   \<and> (\<exists>r. train ext_example 0 diag_fresh [[0], [2]] (Some [1, 0]) 1 (1 / 10000) 1 = Inr r)"
proof -
  from iae_example[of 0 "Some [1, 0]"] have
    "\<exists>r. train ext_example 0 diag_fresh [[0], [2]] (Some [1, 0]) 1 (1 / 10000) 1 = Inr r"
    by (auto simp add: train_def)
  then show ?thesis
    using initial_labels_ignored[of ext_example 0 diag_fresh "[[0], [2]]" None 1 "1 / 10000" 1
        "Some [1, 0]"]
    by simp
qed

end
